theory Spec2Isabelle
  imports Complex_Main "HOL-Library.FSet" "HOL-Library.AList" "HOL-Library.Char_ord"
    "HOL-Library.List_Lexorder"
begin

section \<open>Values\<close>

text \<open>
  A Python number as the handlers and the body parser have it: a finite value, kept
  exact as a rational (every \<open>int\<close> and every finite \<open>float\<close> is one), or one of the
  floats that are not finite. The body parser reads \<open>1e400\<close> as \<open>inf\<close>.
\<close>

datatype pyfloat = Finite rat | PosInf | NegInf | NaN

text \<open>
  The wire data of a request or response body: a JSON tree, as Python's parser
  returns it.
\<close>

datatype json =
    JNull
  | JNum pyfloat
  | JStr string
  | JArr "json list"
  | JObj "(string \<times> json) list"

text \<open>
  The Python values the handlers receive and return: \<open>None\<close>, \<open>int\<close>, \<open>float\<close>
  (finite or not; comparison of finite floats is comparison of the rationals they
  denote), \<open>str\<close>, \<open>list\<close>, \<open>set[str]\<close> and a mapping from names to values, which
  stands for a \<open>dict\<close> and for an instance of a \<open>BaseModel\<close> class alike.
\<close>

datatype tval =
    VNone
  | VInt int
  | VFloat pyfloat
  | VStr string
  | VSeq "tval list"
  | VStrSet "string fset"
  | VDict "(string \<times> tval) list"

section \<open>Schemas\<close>

text \<open>
  The constraints a field can declare (\<open>Field(gt=..., max_length=...)\<close>,
  \<open>Query(gt=..., lt=...)\<close>, \<open>Path(ge=..., lt=...)\<close>): numeric bounds and length
  bounds, each optional.
\<close>

record constraints =
  gt :: "rat option"
  ge :: "rat option"
  lt :: "rat option"
  le :: "rat option"
  min_length :: "nat option"
  max_length :: "nat option"

definition unconstrained :: constraints where
  "unconstrained =
     \<lparr>gt = None, ge = None, lt = None, le = None, min_length = None, max_length = None\<rparr>"

text \<open>
  The declared type of a field and the field itself: its name, type, default (a
  field with no default is required) and constraints. The types are those of the
  annotations in \<open>main.py\<close>: \<open>int\<close>, \<open>float\<close>, \<open>str\<close>, \<open>HttpUrl\<close>, \<open>T | None\<close>,
  \<open>list[T]\<close>, \<open>set[str]\<close> and a nested model.
\<close>

datatype ftype =
    TInt
  | TFloat
  | TStr
  | THttpUrl
  | TOptional ftype
  | TSeq ftype
  | TStrSet
  | TNested "field list"
and field = Field (fname: string) (ftype: ftype) (fdefault: "tval option") (fcons: constraints)

text \<open>
  Modelled from the spec: schema inheritance, which Python's class inheritance does
  in the source (section 9: the child's field list is the parent's minus the
  overridden names, plus the child's own).
\<close>

definition inherit :: "field list \<Rightarrow> field list \<Rightarrow> field list" where
  "inherit parent child = filter (\<lambda>f. fname f \<notin> fname ` set child) parent @ child"

text \<open>The field a schema declares under a name.\<close>

definition field_of :: "field list \<Rightarrow> string \<Rightarrow> field option" where
  "field_of sch n = find (\<lambda>f. fname f = n) sch"

text \<open>The model classes of \<open>main.py\<close>, lines 39-95.\<close>

definition Image :: "field list" where
  "Image =
     [Field ''url'' THttpUrl None unconstrained,
      Field ''name'' TStr None unconstrained]"

definition BaseItem :: "field list" where
  "BaseItem =
     [Field ''description'' (TOptional TStr) (Some VNone) (unconstrained\<lparr>max_length := Some 300\<rparr>),
      Field ''type'' (TOptional TStr) (Some VNone) unconstrained]"

definition CarItem :: "field list" where
  "CarItem = inherit BaseItem [Field ''type'' TStr (Some (VStr ''car'')) unconstrained]"

definition PlaneItem :: "field list" where
  "PlaneItem =
     inherit BaseItem
       [Field ''type'' TStr (Some (VStr ''plane'')) unconstrained,
        Field ''size'' TInt None unconstrained]"

definition Item :: "field list" where
  "Item =
     inherit BaseItem
       [Field ''name'' TStr None unconstrained,
        Field ''price'' TFloat None (unconstrained\<lparr>gt := Some 0\<rparr>),
        Field ''tax'' (TOptional TFloat) (Some VNone) unconstrained,
        Field ''tags'' (TOptional TStrSet) (Some VNone) unconstrained,
        Field ''images'' (TOptional (TSeq (TNested Image))) (Some VNone) unconstrained]"

definition Offer :: "field list" where
  "Offer =
     [Field ''name'' TStr None unconstrained,
      Field ''description'' (TOptional TStr) (Some VNone) unconstrained,
      Field ''price'' TFloat None unconstrained,
      Field ''items'' (TSeq (TNested Item)) None unconstrained]"

definition BaseUser :: "field list" where
  "BaseUser =
     [Field ''username'' TStr None unconstrained,
      Field ''full_name'' (TOptional TStr) (Some VNone) unconstrained]"

definition UserIn :: "field list" where
  "UserIn = inherit BaseUser [Field ''password'' TStr None unconstrained]"

section \<open>Errors and responses\<close>

datatype location = Path | Query | Header | Cookie | Body | Form

datatype ckind =
    Missing
  | TypeError
  | Gt rat
  | Ge rat
  | Lt rat
  | Le rat
  | MinLength nat
  | MaxLength nat

text \<open>
  A violation found on one field: the field's name, the constraint it violates and
  the offending raw value. The binder adds the location the field is read from.
\<close>

type_synonym cviolation = "string \<times> ckind \<times> json"

record violation =
  vloc :: location
  vname :: string
  vkind :: ckind
  vinput :: json

text \<open>
  The exceptions of \<open>main.py\<close>: \<open>HTTPException(status_code, detail, headers)\<close>,
  \<open>UnicornException(name)\<close>, the \<open>KeyError\<close> of an unguarded \<open>d[k]\<close>, and the errors
  of the pipeline around the handlers: a request that fails binding, a handler
  result that the declared response model does not admit, and a handler called
  with arguments that are not of its parameters' types.
\<close>

datatype error =
    HTTPException nat string "(string \<times> string) list"
  | UnicornException string
  | KeyError string
  | ValidationFailure "violation list"
  | ContractViolation
  | ArgumentError

text \<open>
  A response: status, headers and body. The body is JSON, the structured list of
  violations of a failed binding, or the generic body of a server error, over whose
  shape there is no contract.
\<close>

datatype content = Json json | Violations "violation list" | Generic

record response =
  status_code :: nat
  headers :: "(string \<times> string) list"
  content :: content

section \<open>Coercion and validation\<close>

text \<open>
  How the text of a path, query or form value is read as a number, and which
  strings are well-formed http URLs, is the work of the framework's parsers, which
  \<open>main.py\<close> only calls: they are parameters of the engine.
\<close>

record coercion =
  to_int :: "string \<Rightarrow> int option"
  to_float :: "string \<Rightarrow> pyfloat option"
  is_http_url :: "string \<Rightarrow> bool"

text \<open>
  Modelled from the spec: the comparisons of the Coercion/Validation Engine, which
  the framework runs for the bounds \<open>main.py\<close> declares (section 4.1: strict bounds
  are strict): a number against a bound, as Python's \<open>>\<close>, \<open>>=\<close>, \<open><\<close> and \<open><=\<close>
  compare a float with it (\<open>nan\<close> is in no order with anything).
\<close>

fun above :: "pyfloat \<Rightarrow> rat \<Rightarrow> bool" where
  "above (Finite q) b = (b < q)"
| "above PosInf b = True"
| "above NegInf b = False"
| "above NaN b = False"

text \<open>
  Modelled from the spec: the framework's comparison for \<open>ge\<close> (section 4.1).
\<close>

fun at_least :: "pyfloat \<Rightarrow> rat \<Rightarrow> bool" where
  "at_least (Finite q) b = (b \<le> q)"
| "at_least PosInf b = True"
| "at_least NegInf b = False"
| "at_least NaN b = False"

text \<open>
  Modelled from the spec: the framework's comparison for \<open>lt\<close> (section 4.1,
  strict).
\<close>

fun below :: "pyfloat \<Rightarrow> rat \<Rightarrow> bool" where
  "below (Finite q) b = (q < b)"
| "below PosInf b = False"
| "below NegInf b = True"
| "below NaN b = False"

text \<open>
  Modelled from the spec: the framework's comparison for \<open>le\<close> (section 4.1).
\<close>

fun at_most :: "pyfloat \<Rightarrow> rat \<Rightarrow> bool" where
  "at_most (Finite q) b = (q \<le> b)"
| "at_most PosInf b = False"
| "at_most NegInf b = True"
| "at_most NaN b = False"

text \<open>
  Modelled from the spec: the range checks of the engine, which is the framework's
  (section 4.1: gt, ge, lt, le in this order, every violated bound collected).
\<close>

definition range_check :: "constraints \<Rightarrow> pyfloat \<Rightarrow> ckind list" where
  "range_check cs x =
     (case gt cs of None \<Rightarrow> [] | Some b \<Rightarrow> if above x b then [] else [Gt b]) @
     (case ge cs of None \<Rightarrow> [] | Some b \<Rightarrow> if at_least x b then [] else [Ge b]) @
     (case lt cs of None \<Rightarrow> [] | Some b \<Rightarrow> if below x b then [] else [Lt b]) @
     (case le cs of None \<Rightarrow> [] | Some b \<Rightarrow> if at_most x b then [] else [Le b])"

text \<open>
  Modelled from the spec: the length checks of the engine, which is the framework's
  (section 4.1: minLength and maxLength, for strings and sequences).
\<close>

definition length_check :: "constraints \<Rightarrow> nat \<Rightarrow> ckind list" where
  "length_check cs n =
     (case min_length cs of None \<Rightarrow> [] | Some m \<Rightarrow> if m \<le> n then [] else [MinLength m]) @
     (case max_length cs of None \<Rightarrow> [] | Some m \<Rightarrow> if n \<le> m then [] else [MaxLength m])"

text \<open>
  Modelled from the spec: the constraints checked on a coerced value, by the
  framework's engine (section 4.1): the range checks on a number, the length checks
  on a string, a sequence or a set, none on \<open>None\<close> or a nested instance.
\<close>

fun check :: "constraints \<Rightarrow> tval \<Rightarrow> ckind list" where
  "check cs (VInt n) = range_check cs (Finite (of_int n))"
| "check cs (VFloat x) = range_check cs x"
| "check cs (VStr s) = length_check cs (length s)"
| "check cs (VSeq vs) = length_check cs (length vs)"
| "check cs (VStrSet S) = length_check cs (fcard S)"
| "check cs VNone = []"
| "check cs (VDict kvs) = []"

text \<open>
  Modelled from the spec: the elements of a JSON array read as strings, for the
  framework's coercion to \<open>set[str]\<close> (section 4.1); \<open>None\<close> when an element is
  not a string.
\<close>

fun json_strs :: "json list \<Rightarrow> string list option" where
  "json_strs [] = Some []"
| "json_strs (JStr s # js) = map_option (Cons s) (json_strs js)"
| "json_strs (j # js) = None"

text \<open>
  Modelled from the spec: two results of the framework's engine joined fail-slow
  (section 4.1, all violations are collected): the value only when both are values,
  otherwise the violations of both, in order.
\<close>

definition both ::
  "('a \<Rightarrow> 'b list \<Rightarrow> 'b list) \<Rightarrow> 'e list + 'a \<Rightarrow> 'e list + 'b list \<Rightarrow> 'e list + 'b list" where
  "both cons r rs =
     (case r of
        Inl es \<Rightarrow> (case rs of Inl es' \<Rightarrow> Inl (es @ es') | Inr _ \<Rightarrow> Inl es)
      | Inr v \<Rightarrow> (case rs of Inl es' \<Rightarrow> Inl es' | Inr vs \<Rightarrow> Inr (cons v vs)))"


text \<open>
  Modelled from the spec: the Coercion/Validation Engine, which is the framework's
  and not in \<open>main.py\<close> (section 4.1). \<open>validate\<close> is the contract
  \<open>validate(fieldSpec, rawValue)\<close>: a missing value is the violation \<open>missing\<close> when
  the field is required and the default otherwise; a value is coerced to the
  field's type (numeric strings to numbers, a JSON array to a sequence or a set, a
  JSON object to a recursively validated instance; what cannot be coerced is a
  \<open>type_error\<close>), and the constraints are checked only after a successful coercion.
\<close>

function coerce :: "coercion \<Rightarrow> string \<Rightarrow> ftype \<Rightarrow> json \<Rightarrow> cviolation list + tval"
and coerce_seq :: "coercion \<Rightarrow> string \<Rightarrow> ftype \<Rightarrow> json list \<Rightarrow> cviolation list + tval list"
and validate :: "coercion \<Rightarrow> field \<Rightarrow> json option \<Rightarrow> cviolation list + tval"
and validate_fields ::
  "coercion \<Rightarrow> field list \<Rightarrow> (string \<times> json) list \<Rightarrow> cviolation list + (string \<times> tval) list"
where
  "coerce c n TInt j =
     (case j of
        JNum x \<Rightarrow>
          (case x of
             Finite q \<Rightarrow> if of_int \<lfloor>q\<rfloor> = q then Inr (VInt \<lfloor>q\<rfloor>) else Inl [(n, TypeError, j)]
           | _ \<Rightarrow> Inl [(n, TypeError, j)])
      | JStr s \<Rightarrow> (case to_int c s of Some i \<Rightarrow> Inr (VInt i) | None \<Rightarrow> Inl [(n, TypeError, j)])
      | _ \<Rightarrow> Inl [(n, TypeError, j)])"
| "coerce c n TFloat j =
     (case j of
        JNum x \<Rightarrow> Inr (VFloat x)
      | JStr s \<Rightarrow> (case to_float c s of Some x \<Rightarrow> Inr (VFloat x) | None \<Rightarrow> Inl [(n, TypeError, j)])
      | _ \<Rightarrow> Inl [(n, TypeError, j)])"
| "coerce c n TStr j =
     (case j of
        JStr s \<Rightarrow> Inr (VStr s)
      | _ \<Rightarrow> Inl [(n, TypeError, j)])"
| "coerce c n THttpUrl j =
     (case j of
        JStr s \<Rightarrow> if is_http_url c s then Inr (VStr s) else Inl [(n, TypeError, j)]
      | _ \<Rightarrow> Inl [(n, TypeError, j)])"
| "coerce c n (TOptional t) j =
     (if j = JNull then Inr VNone else coerce c n t j)"
| "coerce c n (TSeq t) j =
     (case j of
        JArr js \<Rightarrow> (case coerce_seq c n t js of Inl es \<Rightarrow> Inl es | Inr vs \<Rightarrow> Inr (VSeq vs))
      | _ \<Rightarrow> Inl [(n, TypeError, j)])"
| "coerce c n TStrSet j =
     (case j of
        JArr js \<Rightarrow>
          (case json_strs js of
             Some ss \<Rightarrow> Inr (VStrSet (fset_of_list ss))
           | None \<Rightarrow> Inl [(n, TypeError, j)])
      | _ \<Rightarrow> Inl [(n, TypeError, j)])"
| "coerce c n (TNested fs) j =
     (case j of
        JObj kvs \<Rightarrow> (case validate_fields c fs kvs of Inl es \<Rightarrow> Inl es | Inr vs \<Rightarrow> Inr (VDict vs))
      | _ \<Rightarrow> Inl [(n, TypeError, j)])"
| "coerce_seq c n t [] = Inr []"
| "coerce_seq c n t (j # js) = both Cons (coerce c n t j) (coerce_seq c n t js)"
| "validate c (Field n t d cs) None =
     (case d of
        None \<Rightarrow> Inl [(n, Missing, JNull)]
      | Some v \<Rightarrow> Inr v)"
| "validate c (Field n t d cs) (Some j) =
     (case coerce c n t j of
        Inl es \<Rightarrow> Inl es
      | Inr v \<Rightarrow>
          (case check cs v of
             [] \<Rightarrow> Inr v
           | ks \<Rightarrow> Inl (map (\<lambda>k. (n, k, j)) ks)))"
| "validate_fields c [] kvs = Inr []"
| "validate_fields c (f # fs) kvs =
     both (\<lambda>v vs. (fname f, v) # vs) (validate c f (map_of kvs (fname f))) (validate_fields c fs kvs)"
  by pat_completeness auto
termination
  by (relation "inv_image (less_than <*lex*> less_than)
        (\<lambda>x. case x of
           Inl (Inl (c, n, t, j)) \<Rightarrow> (size t, 0)
         | Inl (Inr (c, n, t, js)) \<Rightarrow> (size t, Suc (length js))
         | Inr (Inl (c, f, jo)) \<Rightarrow> (size f, 0)
         | Inr (Inr (c, fs, kvs)) \<Rightarrow> (size_list size fs, 0))") auto

section \<open>Binding\<close>

text \<open>
  The raw data of one request, as the transport hands it over: the path segments
  by name, the query string's, headers', cookies' and form's key-value pairs in
  order (a key can repeat), and the parsed JSON body when there is one.
\<close>

record request =
  path_params :: "(string \<times> string) list"
  query_params :: "(string \<times> string) list"
  header_params :: "(string \<times> string) list"
  cookie_params :: "(string \<times> string) list"
  form_fields :: "(string \<times> string) list"
  body :: "json option"

text \<open>
  A declared parameter of a route: where it is read from, its wire alias when it
  has one, whether a body parameter is embedded under its own key, and the field.
\<close>

datatype param =
  Param (ploc: location) (palias: "string option") (pembed: bool) (pfield: field)

text \<open>
  Modelled from the spec: the name the framework's binder looks a parameter up
  under (section 4.2: the wire alias, defaulting to the field name).
\<close>

definition wire_name :: "param \<Rightarrow> string" where
  "wire_name p = (case palias p of None \<Rightarrow> fname (pfield p) | Some a \<Rightarrow> a)"

text \<open>
  Modelled from the spec: whether the framework's binder reads all the values of a
  repeated key (section 4.1: repeated-key sequences become a sequence or a set).
\<close>

fun is_sequence :: "ftype \<Rightarrow> bool" where
  "is_sequence (TSeq t) = True"
| "is_sequence TStrSet = True"
| "is_sequence (TOptional t) = is_sequence t"
| "is_sequence t = False"

text \<open>
  Modelled from the spec: the raw value of a parameter that arrives as text, which
  the framework's binder looks up by key (section 4.2; repeated keys make a
  sequence). A scalar whose key repeats takes the last value. The spec does not
  say what an empty value is; the framework takes an empty form value as no value
  at all, and so does this.
\<close>

definition raw_strings ::
  "location \<Rightarrow> ftype \<Rightarrow> (string \<times> string) list \<Rightarrow> string \<Rightarrow> json option" where
  "raw_strings l t kvs k =
     (let vs = map snd (filter (\<lambda>kv. fst kv = k) kvs)
      in if vs = [] then None
         else if is_sequence t then Some (JArr (map JStr vs))
         else if l = Form \<and> last vs = [] then None
         else Some (JStr (last vs)))"

text \<open>
  Modelled from the spec: the raw value of a parameter by its source location, as
  the framework's binder resolves it (section 4.2): an embedded body parameter, or
  one of several body parameters, is read from its own key of the root JSON object,
  a single one is the whole body.
\<close>

definition raw_value :: "param list \<Rightarrow> request \<Rightarrow> param \<Rightarrow> json option" where
  "raw_value ps req p =
     (case ploc p of
        Path \<Rightarrow> raw_strings Path (ftype (pfield p)) (path_params req) (wire_name p)
      | Query \<Rightarrow> raw_strings Query (ftype (pfield p)) (query_params req) (wire_name p)
      | Header \<Rightarrow> raw_strings Header (ftype (pfield p)) (header_params req) (wire_name p)
      | Cookie \<Rightarrow> raw_strings Cookie (ftype (pfield p)) (cookie_params req) (wire_name p)
      | Form \<Rightarrow> raw_strings Form (ftype (pfield p)) (form_fields req) (wire_name p)
      | Body \<Rightarrow>
          (if pembed p \<or> 1 < length (filter (\<lambda>p'. ploc p' = Body) ps)
           then (case body req of
                   Some (JObj kvs) \<Rightarrow> map_of kvs (wire_name p)
                 | _ \<Rightarrow> None)
           else body req))"

text \<open>
  Modelled from the spec: a violation record of the framework's binder (section 3,
  ValidationFailure): location, name, violated constraint and offending value.
\<close>

definition locate :: "location \<Rightarrow> cviolation \<Rightarrow> violation" where
  "locate l cv =
     \<lparr>vloc = l, vname = fst cv, vkind = fst (snd cv), vinput = snd (snd cv)\<rparr>"

text \<open>
  Modelled from the spec: the Parameter Binder, which is the framework's (section
  4.2, contract \<open>bind(routeSpec, request)\<close>): every declared parameter is validated,
  every field's violations are collected in declaration order, and the typed
  instance is returned only when there are none.
\<close>

definition violations_of :: "coercion \<Rightarrow> param list \<Rightarrow> request \<Rightarrow> param \<Rightarrow> violation list" where
  "violations_of c ps req p =
     (case validate c (pfield p) (raw_value ps req p) of
        Inl es \<Rightarrow> map (locate (ploc p)) es
      | Inr v \<Rightarrow> [])"

text \<open>
  Modelled from the spec: the value the framework's binder binds a valid parameter
  to, under the field's name (section 4.2).
\<close>

definition bound_of :: "coercion \<Rightarrow> param list \<Rightarrow> request \<Rightarrow> param \<Rightarrow> (string \<times> tval) list" where
  "bound_of c ps req p =
     (case validate c (pfield p) (raw_value ps req p) of
        Inl es \<Rightarrow> []
      | Inr v \<Rightarrow> [(fname (pfield p), v)])"

text \<open>
  Modelled from the spec: the framework's \<open>bind\<close> (section 4.2): the aggregated
  violations when there are any, and only otherwise the typed instance.
\<close>

definition bind ::
  "coercion \<Rightarrow> param list \<Rightarrow> request \<Rightarrow> violation list + (string \<times> tval) list" where
  "bind c ps req =
     (let vs = concat (map (violations_of c ps req) ps)
      in if vs = [] then Inr (concat (map (bound_of c ps req) ps)) else Inl vs)"

section \<open>Response resolution\<close>

text \<open>
  Modelled from the spec: the serialized form of a value, which the framework's
  encoder produces (section 4.3, "serialize"): JSON of the same shape. A float
  that is not finite has no JSON number and is written \<open>null\<close>. A set is written as
  an array in the order the parameter \<open>ord\<close> enumerates it: Python fixes no
  iteration order for a set.
\<close>

fun serialize :: "(string fset \<Rightarrow> string list) \<Rightarrow> tval \<Rightarrow> json"
and serialize_seq :: "(string fset \<Rightarrow> string list) \<Rightarrow> tval list \<Rightarrow> json list"
and serialize_items :: "(string fset \<Rightarrow> string list) \<Rightarrow> (string \<times> tval) list \<Rightarrow> (string \<times> json) list"
where
  "serialize ord VNone = JNull"
| "serialize ord (VInt i) = JNum (Finite (of_int i))"
| "serialize ord (VFloat x) = (case x of Finite q \<Rightarrow> JNum x | _ \<Rightarrow> JNull)"
| "serialize ord (VStr s) = JStr s"
| "serialize ord (VSeq vs) = JArr (serialize_seq ord vs)"
| "serialize ord (VStrSet S) = JArr (map JStr (ord S))"
| "serialize ord (VDict kvs) = JObj (serialize_items ord kvs)"
| "serialize_seq ord [] = []"
| "serialize_seq ord (v # vs) = serialize ord v # serialize_seq ord vs"
| "serialize_items ord [] = []"
| "serialize_items ord (kv # kvs) = (fst kv, serialize ord (snd kv)) # serialize_items ord kvs"

text \<open>
  The response a route declares: none (the returned value is serialized as it is),
  one model (\<open>-> BaseUser\<close>, \<open>-> Offer\<close>), a list of one model (\<open>-> list[Item]\<close>) or
  a union of models in the order written (\<open>Union[PlaneItem, CarItem]\<close>).
\<close>

datatype rspec =
    NoModel
  | Single "field list"
  | Many "field list"
  | AnyOf "field list list"

text \<open>
  Modelled from the spec: the projection of a handler result onto a schema's
  fields (section 4.3: fields of the result that the schema does not declare are
  dropped). A field the result lacks takes its default; a result that lacks a
  required field matches no declared shape.
\<close>

fun project :: "field list \<Rightarrow> (string \<times> tval) list \<Rightarrow> (string \<times> tval) list option" where
  "project [] kvs = Some []"
| "project (f # fs) kvs =
     (case (case map_of kvs (fname f) of Some v \<Rightarrow> Some v | None \<Rightarrow> fdefault f) of
        None \<Rightarrow> None
      | Some v \<Rightarrow> map_option (Cons (fname f, v)) (project fs kvs))"

text \<open>
  Modelled from the spec: the framework's projection of a handler result that is
  a mapping (section 4.3); any other result matches no schema.
\<close>

definition project_value :: "field list \<Rightarrow> tval \<Rightarrow> tval option" where
  "project_value sch v =
     (case v of
        VDict kvs \<Rightarrow> map_option VDict (project sch kvs)
      | _ \<Rightarrow> None)"

text \<open>
  Modelled from the spec: the framework's projection of each element of a returned
  list, for a route that declares a list of a model (section 4.3).
\<close>

fun project_all :: "field list \<Rightarrow> tval list \<Rightarrow> tval list option" where
  "project_all sch [] = Some []"
| "project_all sch (v # vs) =
     (case project_value sch v of
        None \<Rightarrow> None
      | Some v' \<Rightarrow> map_option (Cons v') (project_all sch vs))"

text \<open>
  Modelled from the spec: the variant selection of the Response Resolver, which is
  the framework's (section 4.3). The spec selects by a discriminator that the
  response declares; the union of \<open>main.py\<close> declares none, and for such a union
  the framework takes the first member, in the order written, that the result
  matches. A result that matches no member is a contract violation.
\<close>

fun first_match :: "field list list \<Rightarrow> tval \<Rightarrow> tval option" where
  "first_match [] v = None"
| "first_match (sch # schs) v =
     (case project_value sch v of
        Some v' \<Rightarrow> Some v'
      | None \<Rightarrow> first_match schs v)"

text \<open>
  Modelled from the spec: the framework's \<open>resolve\<close> (section 4.3), by the kind of
  response the route declares.
\<close>

fun resolve :: "(string fset \<Rightarrow> string list) \<Rightarrow> rspec \<Rightarrow> tval \<Rightarrow> error + json" where
  "resolve ord NoModel v = Inr (serialize ord v)"
| "resolve ord (Single sch) v =
     (case project_value sch v of
        None \<Rightarrow> Inl ContractViolation
      | Some v' \<Rightarrow> Inr (serialize ord v'))"
| "resolve ord (Many sch) v =
     (case v of
        VSeq vs \<Rightarrow>
          (case project_all sch vs of
             None \<Rightarrow> Inl ContractViolation
           | Some vs' \<Rightarrow> Inr (serialize ord (VSeq vs')))
      | _ \<Rightarrow> Inl ContractViolation)"
| "resolve ord (AnyOf schs) v =
     (case first_match schs v of
        None \<Rightarrow> Inl ContractViolation
      | Some v' \<Rightarrow> Inr (serialize ord v'))"

section \<open>Values whose floats are finite\<close>

text \<open>
  A value in which every \<open>float\<close>, at any depth, is finite.
\<close>

fun finite_val :: "tval \<Rightarrow> bool"
and finite_vals :: "tval list \<Rightarrow> bool"
and finite_items :: "(string \<times> tval) list \<Rightarrow> bool"
where
  "finite_val (VFloat x) = (case x of Finite q \<Rightarrow> True | _ \<Rightarrow> False)"
| "finite_val (VSeq vs) = finite_vals vs"
| "finite_val (VDict kvs) = finite_items kvs"
| "finite_val VNone = True"
| "finite_val (VInt i) = True"
| "finite_val (VStr s) = True"
| "finite_val (VStrSet S) = True"
| "finite_vals [] = True"
| "finite_vals (v # vs) = (finite_val v \<and> finite_vals vs)"
| "finite_items [] = True"
| "finite_items (kv # kvs) = (finite_val (snd kv) \<and> finite_items kvs)"

section \<open>Schemas whose instances can be read back\<close>

text \<open>
  A condition on a schema under which the serialized form of an instance is read
  back as the same instance: the names of a nested model's fields are distinct, and
  a field's default, when it has one, is \<open>None\<close> on an optional type. The schemas
  of \<open>main.py\<close> that the round trip is stated for satisfy it.
\<close>

fun is_optional :: "ftype \<Rightarrow> bool" where
  "is_optional (TOptional t) = True"
| "is_optional t = False"

fun roundtrip_type :: "ftype \<Rightarrow> bool"
and roundtrip_field :: "field \<Rightarrow> bool"
and roundtrip_fields :: "field list \<Rightarrow> bool"
where
  "roundtrip_type (TOptional t) = roundtrip_type t"
| "roundtrip_type (TSeq t) = roundtrip_type t"
| "roundtrip_type (TNested fs) = (roundtrip_fields fs \<and> distinct (map fname fs))"
| "roundtrip_type TInt = True"
| "roundtrip_type TFloat = True"
| "roundtrip_type TStr = True"
| "roundtrip_type THttpUrl = True"
| "roundtrip_type TStrSet = True"
| "roundtrip_field (Field n t d cs) =
     (roundtrip_type t \<and> (case d of None \<Rightarrow> True | Some v \<Rightarrow> v = VNone \<and> is_optional t))"
| "roundtrip_fields [] = True"
| "roundtrip_fields (f # fs) = (roundtrip_field f \<and> roundtrip_fields fs)"

section \<open>Exception mapping, middleware, background tasks\<close>

text \<open>
  \<open>unicorn_exception_handler\<close> (lines 259-264), the one handler \<open>main.py\<close>
  registers.
\<close>

definition unicorn_exception_handler :: "string \<Rightarrow> response" where
  "unicorn_exception_handler name =
     \<lparr>status_code = 418, headers = [],
      content = Json (JObj [(''message'',
        JStr (''Oops! '' @ name @ '' did something. There goes a rainbow...''))])\<rparr>"

text \<open>
  Modelled from the spec: the Exception Mapper's registry (sections 4.5 and 7). An
  \<open>HTTPException\<close> becomes a response with its own status, detail and extra
  headers; a failed binding is reported as the structured list of its violations
  with a 4xx status (the framework's 422); \<open>UnicornException\<close> has the handler the
  source registers. Every other kind is unregistered.
\<close>

fun exception_mapper :: "error \<Rightarrow> response option" where
  "exception_mapper (HTTPException st detail hs) =
     Some \<lparr>status_code = st, headers = hs, content = Json (JObj [(''detail'', JStr detail)])\<rparr>"
| "exception_mapper (ValidationFailure vs) =
     Some \<lparr>status_code = 422, headers = [], content = Violations vs\<rparr>"
| "exception_mapper (UnicornException name) = Some (unicorn_exception_handler name)"
| "exception_mapper e = None"

text \<open>
  Modelled from the spec: the Exception Mapper applied to a raised error, by the
  framework (section 4.5): the registered mapper's response, or the error itself
  when its kind is unregistered.
\<close>

definition map_exception :: "error \<Rightarrow> error + response" where
  "map_exception e = (case exception_mapper e of None \<Rightarrow> Inl e | Some r \<Rightarrow> Inr r)"

text \<open>
  \<open>add_process_time_header\<close> (lines 275-281). \<open>process_time\<close> is the text
  \<open>str(time.time() - start_time)\<close>, a reading of the clock. An exception of
  \<open>call_next\<close> passes through: the lines after the call do not run.
\<close>

definition add_process_time_header :: "string \<Rightarrow> error + response \<Rightarrow> error + response" where
  "add_process_time_header process_time inner =
     (case inner of
        Inl e \<Rightarrow> Inl e
      | Inr r \<Rightarrow> Inr (r\<lparr>headers := AList.update ''X-Process-Time'' process_time (headers r)\<rparr>))"

text \<open>
  Modelled from the spec: the top-level handler (section 7): an error that no
  mapper is registered for still gets a response, a generic server error.
\<close>

definition top_level :: "error + response \<Rightarrow> response" where
  "top_level r =
     (case r of
        Inl e \<Rightarrow> \<lparr>status_code = 500, headers = [], content = Generic\<rparr>
      | Inr resp \<Rightarrow> resp)"

text \<open>
  A queued background task: the function and its argument. \<open>write_log\<close> is the
  only function \<open>main.py\<close> queues.
\<close>

datatype task = WriteLog string

text \<open>\<open>write_log\<close> (lines 301-303): append the message to \<open>log.txt\<close>.\<close>

definition write_log :: "string \<Rightarrow> string \<Rightarrow> string" where
  "write_log message log_txt = log_txt @ message"

text \<open>
  Modelled from the spec: the Background Task Queue, which is the framework's
  \<open>BackgroundTasks\<close> (section 4.6): \<open>add_task\<close> appends, and the queue is drained in
  enqueue order after the response.
\<close>

definition add_task :: "task list \<Rightarrow> task \<Rightarrow> task list" where
  "add_task background_tasks t = background_tasks @ [t]"

text \<open>
  Modelled from the spec: one queued task run by the framework after the response
  (section 4.6): the queued function applied to its argument.
\<close>

fun run_task :: "task \<Rightarrow> string \<Rightarrow> string" where
  "run_task (WriteLog message) log_txt = write_log message log_txt"

text \<open>
  Modelled from the spec: the framework draining the queue in enqueue order
  (section 4.6).
\<close>

fun drain :: "task list \<Rightarrow> string \<Rightarrow> string" where
  "drain [] log_txt = log_txt"
| "drain (t # ts) log_txt = drain ts (run_task t log_txt)"

section \<open>The pipeline\<close>

text \<open>
  What a handler can do besides returning: print to standard output and queue
  background tasks.
\<close>

record effects =
  printed :: "tval list"
  queued :: "task list"

type_synonym endpoint = "(string \<times> tval) list \<Rightarrow> effects \<Rightarrow> (error + tval) \<times> effects"

record route =
  params :: "param list"
  response_model :: rspec
  endpoint :: endpoint

text \<open>
  Modelled from the spec: the framework's control flow of one request, first part
  (section 2): the binder, then the handler on the typed instance, or no handler at
  all when binding fails.
\<close>

definition dispatch ::
  "coercion \<Rightarrow> param list \<Rightarrow> endpoint \<Rightarrow> request \<Rightarrow> effects \<Rightarrow> (error + tval) \<times> effects" where
  "dispatch c ps h req fx =
     (case bind c ps req of
        Inl vs \<Rightarrow> (Inl (ValidationFailure vs), fx)
      | Inr inst \<Rightarrow> h inst fx)"

text \<open>
  Modelled from the spec: the framework's control flow, second part (section 2):
  the resolver on the handler's result, or the exception mapper on an error; a
  resolved result is the body of a 200.
\<close>

definition respond :: "(string fset \<Rightarrow> string list) \<Rightarrow> rspec \<Rightarrow> error + tval \<Rightarrow> error + response" where
  "respond ord rs r =
     (case r of
        Inl e \<Rightarrow> map_exception e
      | Inr v \<Rightarrow>
          (case resolve ord rs v of
             Inl e \<Rightarrow> map_exception e
           | Inr j \<Rightarrow> Inr \<lparr>status_code = 200, headers = [], content = Json j\<rparr>))"

text \<open>
  Modelled from the spec: the framework's whole pipeline for one request
  (section 2): dispatch, response, the middleware of \<open>main.py\<close> on the way out, and
  the top-level handler for what is left.
\<close>

definition serve ::
  "coercion \<Rightarrow> (string fset \<Rightarrow> string list) \<Rightarrow> string \<Rightarrow> route \<Rightarrow> request \<Rightarrow> effects \<Rightarrow>
   response \<times> effects" where
  "serve c ord process_time rt req fx =
     (case dispatch c (params rt) (endpoint rt) req fx of
        (r, fx') \<Rightarrow>
          (top_level (add_process_time_header process_time (respond ord (response_model rt) r)),
           fx'))"

text \<open>
  Modelled from the spec: what the framework does after the response is emitted
  (section 4.6): the request's queue is drained on \<open>log.txt\<close>.
\<close>

definition after_response :: "effects \<Rightarrow> string \<Rightarrow> string" where
  "after_response fx log_txt = drain (queued fx) log_txt"

section \<open>The handlers and routes of \<open>main.py\<close>\<close>

subsection \<open>\<open>GET /items/{item_id}\<close>\<close>



definition size_param :: param where
  "size_param =
     Param Query None False
       (Field ''size'' TFloat None (unconstrained\<lparr>gt := Some 0, lt := Some 10.5\<rparr>))"







subsection \<open>\<open>GET /travel_items/{item_id}\<close>\<close>

text \<open>The dictionary \<open>items\<close> of the second \<open>read_item\<close> (lines 167-174).\<close>

definition items :: "(string \<times> tval) list" where
  "items =
     [(''item1'', VDict [(''description'', VStr ''All my friends drive a low rider''),
                         (''type'', VStr ''car'')]),
      (''item2'', VDict [(''description'', VStr ''Music is my aeroplane, it's my aeroplane''),
                         (''type'', VStr ''plane''),
                         (''size'', VInt 5)])]"

text \<open>
  \<open>read_item\<close> of \<open>GET /travel_items/{item_id}\<close> (the second function of that name in
  the file, lines 166-175): \<open>return items[item_id]\<close>, which raises \<open>KeyError\<close> on an
  absent key.
\<close>

definition read_item_travel :: "string \<Rightarrow> error + tval" where
  "read_item_travel item_id =
     (case map_of items item_id of
        None \<Rightarrow> Inl (KeyError item_id)
      | Some v \<Rightarrow> Inr v)"

text \<open>
  Modelled from the spec: the framework's call of \<open>read_item\<close> on the typed instance
  (section 2, handler invocation): each argument is the instance's value of that
  name, of the parameter's type.
\<close>

definition read_item_travel_endpoint :: endpoint where
  "read_item_travel_endpoint inst fx =
     (case map_of inst ''item_id'' of
        Some (VStr item_id) \<Rightarrow> (read_item_travel item_id, fx)
      | _ \<Rightarrow> (Inl ArgumentError, fx))"

text \<open>
  The route with \<open>response_model=Union[PlaneItem, CarItem]\<close> (line 165): the members
  in the order of the union. Neither class declares a discriminator: \<open>type\<close> is a
  \<open>str\<close> field with a default.
\<close>

definition read_item_travel_route :: route where
  "read_item_travel_route =
     \<lparr>params = [Param Path None False (Field ''item_id'' TStr None unconstrained)],
      response_model = AnyOf [PlaneItem, CarItem],
      endpoint = read_item_travel_endpoint\<rparr>"

subsection \<open>\<open>POST /user/\<close>\<close>

text \<open>\<open>create_user\<close> (lines 179-180).\<close>

definition create_user :: "tval \<Rightarrow> tval" where
  "create_user user = user"

text \<open>
  Modelled from the spec: the framework's call of \<open>create_user\<close> on the typed instance
  (section 2, handler invocation): each argument is the instance's value of that
  name, of the parameter's type.
\<close>

definition create_user_endpoint :: endpoint where
  "create_user_endpoint inst fx =
     (case map_of inst ''user'' of
        Some user \<Rightarrow> (Inr (create_user user), fx)
      | None \<Rightarrow> (Inl ArgumentError, fx))"

definition create_user_route :: route where
  "create_user_route =
     \<lparr>params = [Param Body None False (Field ''user'' (TNested UserIn) None unconstrained)],
      response_model = Single BaseUser,
      endpoint = create_user_endpoint\<rparr>"

subsection \<open>\<open>GET /offers/{offer_id}\<close> and \<open>POST /offers/\<close>\<close>

definition offers :: "(string \<times> tval) list" where
  "offers = [(''foo'', VStr ''The Foo Wrestlers'')]"

text \<open>\<open>read_offer\<close> (lines 184-192): the explicit membership test, then the lookup.\<close>

definition read_offer :: "string \<Rightarrow> error + tval" where
  "read_offer offer_id =
     (if offer_id \<notin> fst ` set offers
      then Inl (HTTPException 404 ''Offer not found'' [(''X-Error'', ''There goes my error'')])
      else (case map_of offers offer_id of
              None \<Rightarrow> Inl (KeyError offer_id)
            | Some v \<Rightarrow> Inr v))"

text \<open>
  Modelled from the spec: the framework's call of \<open>read_offer\<close> on the typed instance
  (section 2, handler invocation): each argument is the instance's value of that
  name, of the parameter's type.
\<close>

definition read_offer_endpoint :: endpoint where
  "read_offer_endpoint inst fx =
     (case map_of inst ''offer_id'' of
        Some (VStr offer_id) \<Rightarrow> (read_offer offer_id, fx)
      | _ \<Rightarrow> (Inl ArgumentError, fx))"

definition read_offer_route :: route where
  "read_offer_route =
     \<lparr>params = [Param Path None False (Field ''offer_id'' TStr None unconstrained)],
      response_model = Single Offer,
      endpoint = read_offer_endpoint\<rparr>"

text \<open>\<open>create_offer\<close> (lines 196-197).\<close>

definition create_offer :: "tval \<Rightarrow> tval" where
  "create_offer offer = offer"

text \<open>
  Modelled from the spec: the framework's call of \<open>create_offer\<close> on the typed instance
  (section 2, handler invocation): each argument is the instance's value of that
  name, of the parameter's type.
\<close>

definition create_offer_endpoint :: endpoint where
  "create_offer_endpoint inst fx =
     (case map_of inst ''offer'' of
        Some offer \<Rightarrow> (Inr (create_offer offer), fx)
      | None \<Rightarrow> (Inl ArgumentError, fx))"

definition create_offer_params :: "param list" where
  "create_offer_params = [Param Body None False (Field ''offer'' (TNested Offer) None unconstrained)]"

definition create_offer_route :: route where
  "create_offer_route =
     \<lparr>params = create_offer_params, response_model = Single Offer,
      endpoint = create_offer_endpoint\<rparr>"

subsection \<open>\<open>POST /login/\<close>\<close>

text \<open>\<open>login\<close> (lines 223-224).\<close>

definition login :: "string \<Rightarrow> string \<Rightarrow> tval" where
  "login username password = VDict [(''username'', VStr username)]"

text \<open>
  Modelled from the spec: the framework's call of \<open>login\<close> on the typed instance
  (section 2, handler invocation): each argument is the instance's value of that
  name, of the parameter's type.
\<close>

definition login_endpoint :: endpoint where
  "login_endpoint inst fx =
     (case map_of inst ''username'' of
        Some (VStr username) \<Rightarrow>
          (case map_of inst ''password'' of
             Some (VStr password) \<Rightarrow> (Inr (login username password), fx)
           | _ \<Rightarrow> (Inl ArgumentError, fx))
      | _ \<Rightarrow> (Inl ArgumentError, fx))"

definition login_route :: route where
  "login_route =
     \<lparr>params = [Param Form (Some ''user-name'') False (Field ''username'' TStr None unconstrained),
                Param Form None False (Field ''password'' TStr None unconstrained)],
      response_model = NoModel,
      endpoint = login_endpoint\<rparr>"

subsection \<open>\<open>POST /send-notification/{email}\<close>\<close>

text \<open>
  \<open>get_query\<close> (lines 306-310), the dependency of the route: \<open>if q:\<close> holds for a
  string that is not empty.
\<close>

definition get_query :: "task list \<Rightarrow> string option \<Rightarrow> string option \<times> task list" where
  "get_query background_tasks q =
     (case q of
        None \<Rightarrow> (q, background_tasks)
      | Some s \<Rightarrow>
          (if s \<noteq> []
           then (let message = ''found query: '' @ s @ [CHR 0x0A]
                 in (q, add_task background_tasks (WriteLog message)))
           else (q, background_tasks)))"

text \<open>\<open>send_notification\<close> (lines 314-317).\<close>

definition send_notification :: "string \<Rightarrow> task list \<Rightarrow> string option \<Rightarrow> tval \<times> task list" where
  "send_notification email background_tasks q =
     (let message = ''message to '' @ email @ [CHR 0x0A]
      in (VDict [(''message'', VStr ''Message sent'')],
          add_task background_tasks (WriteLog message)))"

text \<open>
  Modelled from the spec: the framework's call of the route on the typed instance
  (section 2, handler invocation; section 4.6, the queue is threaded through):
  the dependency \<open>get_query\<close> runs first, on the request's \<open>BackgroundTasks\<close> object
  and the query value \<open>q\<close>; the handler then gets the same object and the
  dependency's result.
\<close>

definition send_notification_endpoint :: endpoint where
  "send_notification_endpoint inst fx =
     (case map_of inst ''email'' of
        Some (VStr email) \<Rightarrow>
          (case (case map_of inst ''q'' of
                   Some (VStr s) \<Rightarrow> Some (Some s)
                 | Some VNone \<Rightarrow> Some None
                 | _ \<Rightarrow> None) of
             Some q \<Rightarrow>
               (case get_query (queued fx) q of
                  (q', bt) \<Rightarrow>
                    (case send_notification email bt q' of
                       (res, bt') \<Rightarrow> (Inr res, fx\<lparr>queued := bt'\<rparr>)))
           | None \<Rightarrow> (Inl ArgumentError, fx))
      | _ \<Rightarrow> (Inl ArgumentError, fx))"

definition send_notification_route :: route where
  "send_notification_route =
     \<lparr>params = [Param Path None False (Field ''email'' TStr None unconstrained),
                Param Query None False (Field ''q'' (TOptional TStr) (Some VNone) unconstrained)],
      response_model = NoModel,
      endpoint = send_notification_endpoint\<rparr>"

text \<open>A request that carries nothing; the requests below fill in what they send.\<close>

definition empty_request :: request where
  "empty_request =
     \<lparr>path_params = [], query_params = [], header_params = [], cookie_params = [],
      form_fields = [], body = None\<rparr>"

definition no_effects :: effects where
  "no_effects = \<lparr>printed = [], queued = []\<rparr>"

section \<open>Properties of the engine\<close>

lemma both_Inr:
  "both cons r rs = Inr ws \<Longrightarrow> \<exists>v vs. r = Inr v \<and> rs = Inr vs \<and> ws = cons v vs"
  by (auto simp add: both_def split: sum.splits)


lemma Inl_nonempty:
  "(coerce c n t j = Inl es \<longrightarrow> es \<noteq> [])"
  "(coerce_seq c n t js = Inl es \<longrightarrow> es \<noteq> [])"
  "(validate c f jo = Inl es \<longrightarrow> es \<noteq> [])"
  "(validate_fields c fs kvs = Inl es \<longrightarrow> es \<noteq> [])"
proof (induction c n t j and c n t js and c f jo and c fs kvs arbitrary: es and es and es and es
    rule: coerce_coerce_seq_validate_validate_fields.induct)
  case (10 c n t j js)
  then show ?case
    by (auto simp add: both_def split: sum.splits)
next
  case (14 c f fs kvs)
  then show ?case
    by (auto simp add: both_def split: sum.splits)
qed (auto split: json.splits option.splits sum.splits if_splits list.splits pyfloat.splits)







lemma validate_fields_Cons_Inr:
  "validate_fields c (f # fs) kvs = Inr ws \<Longrightarrow>
   \<exists>v vs. validate c f (map_of kvs (fname f)) = Inr v \<and> validate_fields c fs kvs = Inr vs
     \<and> ws = (fname f, v) # vs"
  by (auto dest!: both_Inr)

lemma validate_fields_names:
  "validate_fields c fs kvs = Inr ws \<Longrightarrow> map fst ws = map fname fs"
  by (induction fs arbitrary: ws) (auto dest!: both_Inr)

lemma check_unconstrained: "check unconstrained v = []"
  by (cases v) (simp_all add: unconstrained_def range_check_def length_check_def)

lemma Item_fields:
  "Item =
     [Field ''description'' (TOptional TStr) (Some VNone) (unconstrained\<lparr>max_length := Some 300\<rparr>),
      Field ''type'' (TOptional TStr) (Some VNone) unconstrained,
      Field ''name'' TStr None unconstrained,
      Field ''price'' TFloat None (unconstrained\<lparr>gt := Some 0\<rparr>),
      Field ''tax'' (TOptional TFloat) (Some VNone) unconstrained,
      Field ''tags'' (TOptional TStrSet) (Some VNone) unconstrained,
      Field ''images'' (TOptional (TSeq (TNested Image))) (Some VNone) unconstrained]"
  by (simp add: Item_def inherit_def BaseItem_def)



lemma UserIn_fields:
  "UserIn =
     [Field ''username'' TStr None unconstrained,
      Field ''full_name'' (TOptional TStr) (Some VNone) unconstrained,
      Field ''password'' TStr None unconstrained]"
  by (simp add: UserIn_def inherit_def BaseUser_def)

section \<open>Binding is fail-slow\<close>








lemma bind_body:
  "bind c [Param Body None False (Field n t None unconstrained)] req = Inr inst \<Longrightarrow>
   \<exists>j v. body req = Some j \<and> coerce c n t j = Inr v \<and> inst = [(n, v)]"
  using Inl_nonempty(1) [of c n t]
  by (cases "body req")
    (auto simp add: bind_def violations_of_def bound_of_def raw_value_def Let_def
      split: sum.splits if_splits list.splits)

lemma bind_body_Inr:
  "body req = Some j \<Longrightarrow> coerce c n t j = Inr v \<Longrightarrow>
   bind c [Param Body None False (Field n t None unconstrained)] req = Inr [(n, v)]"
  by (simp add: bind_def violations_of_def bound_of_def raw_value_def check_unconstrained)









section \<open>Strict bounds\<close>

lemma price_field:
  "field_of Item ''price'' = Some (Field ''price'' TFloat None (unconstrained\<lparr>gt := Some 0\<rparr>))"
  by (simp add: field_of_def Item_fields)

lemma size_zero:
  "to_float c s = Some (Finite 0) \<Longrightarrow>
   validate c (pfield size_param) (Some (JStr s)) = Inl [(''size'', Gt 0, JStr s)]"
  by (simp add: size_param_def unconstrained_def range_check_def)

lemma size_upper:
  "to_float c s = Some (Finite 10.5) \<Longrightarrow>
   validate c (pfield size_param) (Some (JStr s)) = Inl [(''size'', Lt 10.5, JStr s)]"
  by (simp add: size_param_def unconstrained_def range_check_def)

lemma size_gt_passes:
  "0 < x \<Longrightarrow> Gt 0 \<notin> set (check (fcons (pfield size_param)) (VFloat (Finite x)))"
  by (simp add: size_param_def unconstrained_def range_check_def)

lemma size_inside:
  "to_float c s = Some (Finite x) \<Longrightarrow> 0 < x \<Longrightarrow> x < 10.5 \<Longrightarrow>
   validate c (pfield size_param) (Some (JStr s)) = Inr (VFloat (Finite x))"
  by (simp add: size_param_def unconstrained_def range_check_def)

lemma price_zero:
  "validate c (Field ''price'' TFloat None (unconstrained\<lparr>gt := Some 0\<rparr>)) (Some (JNum (Finite 0))) =
     Inl [(''price'', Gt 0, JNum (Finite 0))]"
  by (simp add: unconstrained_def range_check_def)

lemma price_positive:
  "0 < x \<Longrightarrow>
   validate c (Field ''price'' TFloat None (unconstrained\<lparr>gt := Some 0\<rparr>)) (Some (JNum (Finite x))) =
     Inr (VFloat (Finite x))"
  by (simp add: unconstrained_def range_check_def)

text \<open>
  C6. The query parameter \<open>size\<close> of \<open>GET /items/{item_id}\<close>, declared with
  \<open>gt=0\<close> and \<open>lt=10.5\<close>: a text read as 0 is the violation of \<open>gt\<close>, a text read as
  10.5 is the violation of \<open>lt\<close>, every value above 0 passes \<open>gt\<close>, and every value
  strictly between the bounds is accepted. The field \<open>price\<close> of \<open>Item\<close>, declared
  with \<open>gt=0\<close>: 0 is the violation of \<open>gt\<close> and every value above 0 is accepted.
\<close>

theorem strict_bounds:
  "(to_float c s = Some (Finite 0) \<longrightarrow>
      validate c (pfield size_param) (Some (JStr s)) = Inl [(''size'', Gt 0, JStr s)])
   \<and> (to_float c s = Some (Finite 10.5) \<longrightarrow>
      validate c (pfield size_param) (Some (JStr s)) = Inl [(''size'', Lt 10.5, JStr s)])
   \<and> (0 < x \<longrightarrow> Gt 0 \<notin> set (check (fcons (pfield size_param)) (VFloat (Finite x))))
   \<and> (to_float c s = Some (Finite x) \<and> 0 < x \<and> x < 10.5 \<longrightarrow>
      validate c (pfield size_param) (Some (JStr s)) = Inr (VFloat (Finite x)))
   \<and> (\<exists>f. field_of Item ''price'' = Some f
        \<and> validate c f (Some (JNum (Finite 0))) = Inl [(''price'', Gt 0, JNum (Finite 0))]
        \<and> (0 < x \<longrightarrow> validate c f (Some (JNum (Finite x))) = Inr (VFloat (Finite x))))"
  using size_zero size_upper size_gt_passes size_inside price_field price_zero price_positive
  by simp

theorem strict_bounds_witness:
  "validate \<lparr>to_int = (\<lambda>s. None),
             to_float = (\<lambda>s. if s = ''0'' then Some (Finite 0) else None),
             is_http_url = (\<lambda>s. False)\<rparr> (pfield size_param) (Some (JStr ''0'')) =
     Inl [(''size'', Gt 0, JStr ''0'')]
   \<and> validate \<lparr>to_int = (\<lambda>s. None),
             to_float = (\<lambda>s. if s = ''10.5'' then Some (Finite 10.5) else None),
             is_http_url = (\<lambda>s. False)\<rparr> (pfield size_param) (Some (JStr ''10.5'')) =
     Inl [(''size'', Lt 10.5, JStr ''10.5'')]
   \<and> validate \<lparr>to_int = (\<lambda>s. None),
             to_float = (\<lambda>s. if s = ''0.001'' then Some (Finite 0.001) else None),
             is_http_url = (\<lambda>s. False)\<rparr> (pfield size_param) (Some (JStr ''0.001'')) =
     Inr (VFloat (Finite 0.001))"
  using strict_bounds [where c = "\<lparr>to_int = (\<lambda>s. None),
             to_float = (\<lambda>s. if s = ''0'' then Some (Finite 0) else None),
             is_http_url = (\<lambda>s. False)\<rparr>" and s = "''0''" and x = 1]
    strict_bounds [where c = "\<lparr>to_int = (\<lambda>s. None),
             to_float = (\<lambda>s. if s = ''10.5'' then Some (Finite 10.5) else None),
             is_http_url = (\<lambda>s. False)\<rparr>" and s = "''10.5''" and x = 1]
    strict_bounds [where c = "\<lparr>to_int = (\<lambda>s. None),
             to_float = (\<lambda>s. if s = ''0.001'' then Some (Finite 0.001) else None),
             is_http_url = (\<lambda>s. False)\<rparr>" and s = "''0.001''" and x = "0.001"]
  by simp

section \<open>Routes with one path parameter\<close>

lemma bind_path_str:
  "path_params req = [(k, s)] \<Longrightarrow>
   bind c [Param Path None False (Field k TStr None unconstrained)] req = Inr [(k, VStr s)]"
  by (simp add: bind_def violations_of_def bound_of_def raw_value_def raw_strings_def
      wire_name_def unconstrained_def length_check_def)

lemma read_item_travel_KeyError:
  "(read_item_travel item_id = Inl (KeyError item_id)) = (item_id \<notin> {''item1'', ''item2''})"
  by (simp add: read_item_travel_def items_def)

lemma read_item_travel_ok:
  "(\<exists>v. read_item_travel item_id = Inr v) = (item_id \<in> {''item1'', ''item2''})"
  by (auto simp add: read_item_travel_def items_def)

lemma offers_keys: "fst ` set offers = {''foo''}"
  by (simp add: offers_def)

lemma read_offer_absent:
  "offer_id \<noteq> ''foo'' \<Longrightarrow>
   read_offer offer_id =
     Inl (HTTPException 404 ''Offer not found'' [(''X-Error'', ''There goes my error'')])"
  by (simp add: read_offer_def offers_def)

lemma read_offer_foo: "read_offer ''foo'' = Inr (VStr ''The Foo Wrestlers'')"
  by (simp add: read_offer_def offers_def)

lemma serve_read_offer:
  assumes "path_params req = [(''offer_id'', offer_id)]"
  shows "serve c ord process_time read_offer_route req fx =
     (top_level (add_process_time_header process_time
        (respond ord (Single Offer) (read_offer offer_id))), fx)"
  using bind_path_str [OF assms]
  by (simp add: serve_def dispatch_def read_offer_route_def read_offer_endpoint_def)

text \<open>
  C9. A request to \<open>GET /travel_items/{item_id}\<close>: the lookup \<open>items[item_id]\<close>
  raises \<open>KeyError\<close> exactly when \<open>item_id\<close> is neither \<open>item1\<close> nor \<open>item2\<close>, and
  returns a record exactly when it is one of the two. No mapper is registered for
  \<open>KeyError\<close>, so the request with an unknown key ends as the generic server error
  (status 500), not as a 404.
\<close>

theorem travel_items_unknown_key:
  assumes "path_params req = [(''item_id'', item_id)]"
  shows "(read_item_travel item_id = Inl (KeyError item_id)) = (item_id \<notin> {''item1'', ''item2''})
       \<and> (\<exists>v. read_item_travel item_id = Inr v) = (item_id \<in> {''item1'', ''item2''})
       \<and> exception_mapper (KeyError item_id) = None
       \<and> (item_id \<notin> {''item1'', ''item2''} \<longrightarrow>
            serve c ord process_time read_item_travel_route req fx =
              (\<lparr>status_code = 500, headers = [], content = Generic\<rparr>, fx))"
proof -
  note b = bind_path_str [OF assms]
  have s: "item_id \<notin> {''item1'', ''item2''} \<Longrightarrow>
      serve c ord process_time read_item_travel_route req fx =
        (\<lparr>status_code = 500, headers = [], content = Generic\<rparr>, fx)"
  proof -
    assume "item_id \<notin> {''item1'', ''item2''}"
    then have k: "read_item_travel item_id = Inl (KeyError item_id)"
      by (simp add: read_item_travel_KeyError)
    show ?thesis
      by (simp add: serve_def dispatch_def b read_item_travel_route_def
          read_item_travel_endpoint_def k respond_def map_exception_def
          add_process_time_header_def top_level_def)
  qed
  show ?thesis
    using s read_item_travel_KeyError read_item_travel_ok by simp
qed

theorem travel_items_unknown_key_witness:
  "serve \<lparr>to_int = (\<lambda>s. None), to_float = (\<lambda>s. None), is_http_url = (\<lambda>s. False)\<rparr>
     (\<lambda>S. []) ''0.01'' read_item_travel_route
     (empty_request\<lparr>path_params := [(''item_id'', ''item3'')]\<rparr>) no_effects =
     (\<lparr>status_code = 500, headers = [], content = Generic\<rparr>, no_effects)
   \<and> read_item_travel ''item3'' = Inl (KeyError ''item3'')
   \<and> (\<exists>v. read_item_travel ''item1'' = Inr v)"
  using travel_items_unknown_key
      [of "empty_request\<lparr>path_params := [(''item_id'', ''item3'')]\<rparr>" "''item3''"]
    travel_items_unknown_key
      [of "empty_request\<lparr>path_params := [(''item_id'', ''item1'')]\<rparr>" "''item1''"]
  by (simp add: empty_request_def)

text \<open>
  C4. A request to \<open>GET /offers/{offer_id}\<close> whose \<open>offer_id\<close> is not a key of the
  offer store: the handler raises the \<open>HTTPException\<close> with status 404, and the
  response is that 404 with the extra header \<open>X-Error\<close> (and the middleware's
  timing header); its body is the error's detail, not an offer.
\<close>

theorem read_offer_not_found:
  assumes "path_params req = [(''offer_id'', offer_id)]"
    and "offer_id \<notin> fst ` set offers"
  shows "read_offer offer_id =
           Inl (HTTPException 404 ''Offer not found'' [(''X-Error'', ''There goes my error'')])
       \<and> serve c ord process_time read_offer_route req fx =
           (\<lparr>status_code = 404,
             headers = [(''X-Error'', ''There goes my error''), (''X-Process-Time'', process_time)],
             content = Json (JObj [(''detail'', JStr ''Offer not found'')])\<rparr>, fx)"
proof -
  from assms(2) have ne: "offer_id \<noteq> ''foo''"
    by (simp add: offers_keys)
  show ?thesis
    by (simp add: serve_read_offer [OF assms(1)] read_offer_absent [OF ne] respond_def
        map_exception_def add_process_time_header_def top_level_def)
qed

theorem read_offer_not_found_witness:
  "serve \<lparr>to_int = (\<lambda>s. None), to_float = (\<lambda>s. None), is_http_url = (\<lambda>s. False)\<rparr>
     (\<lambda>S. []) ''0.01'' read_offer_route
     (empty_request\<lparr>path_params := [(''offer_id'', ''bar'')]\<rparr>) no_effects =
     (\<lparr>status_code = 404,
       headers = [(''X-Error'', ''There goes my error''), (''X-Process-Time'', ''0.01'')],
       content = Json (JObj [(''detail'', JStr ''Offer not found'')])\<rparr>, no_effects)"
  using read_offer_not_found
      [of "empty_request\<lparr>path_params := [(''offer_id'', ''bar'')]\<rparr>" "''bar''"]
  by (simp add: empty_request_def offers_def)

text \<open>
  C8. The offer store of \<open>GET /offers/{offer_id}\<close> has the one key \<open>foo\<close>, under
  which the handler returns the string \<open>The Foo Wrestlers\<close>. That string has none of
  the fields of \<open>Offer\<close>, so resolving it against the declared response model is a
  contract violation, which no mapper is registered for. Every request to the route
  therefore ends as the 404 of an absent key or as the server error of the key
  \<open>foo\<close>: none gets a 200 with an offer.
\<close>

theorem read_offer_never_an_offer:
  "fst ` set offers = {''foo''}
   \<and> read_offer ''foo'' = Inr (VStr ''The Foo Wrestlers'')
   \<and> resolve ord (Single Offer) (VStr ''The Foo Wrestlers'') = Inl ContractViolation
   \<and> exception_mapper ContractViolation = None
   \<and> (path_params req = [(''offer_id'', offer_id)] \<longrightarrow>
        serve c ord process_time read_offer_route req fx =
          (if offer_id = ''foo''
           then \<lparr>status_code = 500, headers = [], content = Generic\<rparr>
           else \<lparr>status_code = 404,
                 headers = [(''X-Error'', ''There goes my error''), (''X-Process-Time'', process_time)],
                 content = Json (JObj [(''detail'', JStr ''Offer not found'')])\<rparr>, fx))"
proof -
  have r: "resolve ord (Single Offer) (VStr ''The Foo Wrestlers'') = Inl ContractViolation"
    by (simp add: project_value_def)
  have s: "path_params req = [(''offer_id'', offer_id)] \<Longrightarrow>
        serve c ord process_time read_offer_route req fx =
          (if offer_id = ''foo''
           then \<lparr>status_code = 500, headers = [], content = Generic\<rparr>
           else \<lparr>status_code = 404,
                 headers = [(''X-Error'', ''There goes my error''), (''X-Process-Time'', process_time)],
                 content = Json (JObj [(''detail'', JStr ''Offer not found'')])\<rparr>, fx)"
  proof (cases "offer_id = ''foo''")
    case True
    assume p: "path_params req = [(''offer_id'', offer_id)]"
    show ?thesis
      using True
      by (simp add: serve_read_offer [OF p] read_offer_foo respond_def project_value_def
          map_exception_def add_process_time_header_def top_level_def)
  next
    case False
    assume p: "path_params req = [(''offer_id'', offer_id)]"
    show ?thesis
      using False
      by (simp add: serve_read_offer [OF p] read_offer_absent [OF False] respond_def
          map_exception_def add_process_time_header_def top_level_def)
  qed
  show ?thesis
    using s r by (simp add: offers_keys read_offer_foo)
qed

theorem read_offer_never_an_offer_witness:
  "serve \<lparr>to_int = (\<lambda>s. None), to_float = (\<lambda>s. None), is_http_url = (\<lambda>s. False)\<rparr>
     (\<lambda>S. []) ''0.01'' read_offer_route
     (empty_request\<lparr>path_params := [(''offer_id'', ''foo'')]\<rparr>) no_effects =
     (\<lparr>status_code = 500, headers = [], content = Generic\<rparr>, no_effects)"
  using read_offer_never_an_offer
      [of _ "empty_request\<lparr>path_params := [(''offer_id'', ''foo'')]\<rparr>" "''foo''"]
  by (simp add: empty_request_def)

section \<open>Login and notification\<close>

lemma serve_login:
  "username \<noteq> [] \<Longrightarrow> password \<noteq> [] \<Longrightarrow>
   serve c ord process_time login_route
     (req\<lparr>form_fields := [(''user-name'', username), (''password'', password)]\<rparr>) fx =
   (\<lparr>status_code = 200, headers = [(''X-Process-Time'', process_time)],
     content = Json (JObj [(''username'', JStr username)])\<rparr>, fx)"
  by (simp add: serve_def dispatch_def login_route_def bind_def violations_of_def bound_of_def
      raw_value_def raw_strings_def wire_name_def unconstrained_def length_check_def
      login_endpoint_def login_def respond_def add_process_time_header_def top_level_def)

lemma serve_login_no_username:
  "password \<noteq> [] \<Longrightarrow>
   serve c ord process_time login_route
     (req\<lparr>form_fields := [(''user-name'', []), (''password'', password)]\<rparr>) fx =
   (\<lparr>status_code = 422, headers = [(''X-Process-Time'', process_time)],
     content = Violations
       [\<lparr>vloc = Form, vname = ''username'', vkind = Missing, vinput = JNull\<rparr>]\<rparr>, fx)"
  by (simp add: serve_def dispatch_def login_route_def bind_def violations_of_def bound_of_def
      raw_value_def raw_strings_def wire_name_def unconstrained_def length_check_def locate_def
      respond_def map_exception_def add_process_time_header_def top_level_def)

text \<open>
  C10, as the code has it. Two requests to \<open>POST /login/\<close> with the same
  \<open>user-name\<close> form field and any two \<open>password\<close> form fields that are not empty (and
  the same reading of the clock for the timing header) get the same response; for a
  \<open>user-name\<close> that is not empty it is status 200 and the body
  \<open>{"username": username}\<close>, in which the password does not occur.
\<close>

theorem login_independent_of_password:
  "(password \<noteq> [] \<and> other_password \<noteq> [] \<longrightarrow>
      serve c ord process_time login_route
        (req\<lparr>form_fields := [(''user-name'', username), (''password'', password)]\<rparr>) fx =
      serve c ord process_time login_route
        (req\<lparr>form_fields := [(''user-name'', username), (''password'', other_password)]\<rparr>) fx)
   \<and> (username \<noteq> [] \<and> password \<noteq> [] \<longrightarrow>
      fst (serve c ord process_time login_route
        (req\<lparr>form_fields := [(''user-name'', username), (''password'', password)]\<rparr>) fx) =
      \<lparr>status_code = 200, headers = [(''X-Process-Time'', process_time)],
       content = Json (JObj [(''username'', JStr username)])\<rparr>)"
proof (cases "username = []")
  case True
  then show ?thesis
    by (simp add: serve_login_no_username)
next
  case False
  then show ?thesis
    by (simp add: serve_login)
qed

theorem login_independent_of_password_witness:
  "serve \<lparr>to_int = (\<lambda>s. None), to_float = (\<lambda>s. None), is_http_url = (\<lambda>s. False)\<rparr>
     (\<lambda>S. []) ''0.01'' login_route
     (empty_request\<lparr>form_fields := [(''user-name'', ''rick''), (''password'', ''secret'')]\<rparr>)
     no_effects =
   serve \<lparr>to_int = (\<lambda>s. None), to_float = (\<lambda>s. None), is_http_url = (\<lambda>s. False)\<rparr>
     (\<lambda>S. []) ''0.01'' login_route
     (empty_request\<lparr>form_fields := [(''user-name'', ''rick''), (''password'', ''hunter2'')]\<rparr>)
     no_effects
   \<and> fst (serve \<lparr>to_int = (\<lambda>s. None), to_float = (\<lambda>s. None), is_http_url = (\<lambda>s. False)\<rparr>
     (\<lambda>S. []) ''0.01'' login_route
     (empty_request\<lparr>form_fields := [(''user-name'', ''rick''), (''password'', ''secret'')]\<rparr>)
     no_effects) =
   \<lparr>status_code = 200, headers = [(''X-Process-Time'', ''0.01'')],
     content = Json (JObj [(''username'', JStr ''rick'')])\<rparr>"
proof -
  have ne: "''secret'' \<noteq> [] \<and> ''hunter2'' \<noteq> [] \<and> ''rick'' \<noteq> []"
    by simp
  with login_independent_of_password
      [where c = "\<lparr>to_int = (\<lambda>s. None), to_float = (\<lambda>s. None), is_http_url = (\<lambda>s. False)\<rparr>"
         and ord = "\<lambda>S. []" and process_time = "''0.01''" and req = empty_request
         and username = "''rick''" and password = "''secret''" and fx = no_effects
         and other_password = "''hunter2''"]
  show ?thesis
    by blast
qed

text \<open>
  C10, as the claim states it, fails: the empty password is a password form field
  value, and it is taken as no value. The request with \<open>user-name = rick\<close> and an
  empty \<open>password\<close> is answered 422, the one with the password \<open>x\<close> is answered 200.
\<close>

theorem login_empty_password:
  "fst (serve \<lparr>to_int = (\<lambda>s. None), to_float = (\<lambda>s. None), is_http_url = (\<lambda>s. False)\<rparr>
     (\<lambda>S. []) ''0.01'' login_route
     (empty_request\<lparr>form_fields := [(''user-name'', ''rick''), (''password'', [])]\<rparr>)
     no_effects) =
   \<lparr>status_code = 422, headers = [(''X-Process-Time'', ''0.01'')],
     content = Violations
       [\<lparr>vloc = Form, vname = ''password'', vkind = Missing, vinput = JNull\<rparr>]\<rparr>
   \<and> fst (serve \<lparr>to_int = (\<lambda>s. None), to_float = (\<lambda>s. None), is_http_url = (\<lambda>s. False)\<rparr>
     (\<lambda>S. []) ''0.01'' login_route
     (empty_request\<lparr>form_fields := [(''user-name'', ''rick''), (''password'', ''x'')]\<rparr>)
     no_effects) =
   \<lparr>status_code = 200, headers = [(''X-Process-Time'', ''0.01'')],
     content = Json (JObj [(''username'', JStr ''rick'')])\<rparr>
   \<and> serve \<lparr>to_int = (\<lambda>s. None), to_float = (\<lambda>s. None), is_http_url = (\<lambda>s. False)\<rparr>
     (\<lambda>S. []) ''0.01'' login_route
     (empty_request\<lparr>form_fields := [(''user-name'', ''rick''), (''password'', [])]\<rparr>)
     no_effects \<noteq>
   serve \<lparr>to_int = (\<lambda>s. None), to_float = (\<lambda>s. None), is_http_url = (\<lambda>s. False)\<rparr>
     (\<lambda>S. []) ''0.01'' login_route
     (empty_request\<lparr>form_fields := [(''user-name'', ''rick''), (''password'', ''x'')]\<rparr>)
     no_effects"
  by (simp add: serve_def dispatch_def login_route_def bind_def violations_of_def bound_of_def
      raw_value_def raw_strings_def wire_name_def unconstrained_def length_check_def locate_def
      login_endpoint_def login_def respond_def map_exception_def add_process_time_header_def
      top_level_def empty_request_def)

lemma serve_send_notification:
  "serve c ord process_time send_notification_route
     (req\<lparr>path_params := [(''email'', email)], query_params := [(''q'', q)]\<rparr>) fx =
   (\<lparr>status_code = 200, headers = [(''X-Process-Time'', process_time)],
     content = Json (JObj [(''message'', JStr ''Message sent'')])\<rparr>,
    fx\<lparr>queued := queued fx
         @ (if q \<noteq> [] then [WriteLog (''found query: '' @ q @ [CHR 0x0A])] else [])
         @ [WriteLog (''message to '' @ email @ [CHR 0x0A])]\<rparr>)"
  by (simp add: serve_def dispatch_def send_notification_route_def bind_def violations_of_def
      bound_of_def raw_value_def raw_strings_def wire_name_def unconstrained_def length_check_def
      send_notification_endpoint_def send_notification_def get_query_def add_task_def
      respond_def add_process_time_header_def top_level_def)

text \<open>
  C3, as the code has it. A request to \<open>POST /send-notification/{email}\<close> with a
  query value \<open>q\<close>: the handler queues one task, the line \<open>message to {email}\<close>, and
  when \<open>q\<close> is not empty the dependency \<open>get_query\<close> has queued one before it, the line
  \<open>found query: {q}\<close>. So a request with a non-empty \<open>q\<close> queues two tasks and one
  with an empty \<open>q\<close> queues one. After the response, draining the queue appends each
  queued line to the log once, in the order queued.
\<close>

theorem send_notification_tasks:
  "snd (serve c ord process_time send_notification_route
     (req\<lparr>path_params := [(''email'', email)], query_params := [(''q'', q)]\<rparr>) no_effects) =
   no_effects\<lparr>queued :=
     (if q \<noteq> [] then [WriteLog (''found query: '' @ q @ [CHR 0x0A])] else [])
     @ [WriteLog (''message to '' @ email @ [CHR 0x0A])]\<rparr>
   \<and> after_response (snd (serve c ord process_time send_notification_route
     (req\<lparr>path_params := [(''email'', email)], query_params := [(''q'', q)]\<rparr>) no_effects)) log_txt =
     log_txt @ (if q \<noteq> [] then ''found query: '' @ q @ [CHR 0x0A] else [])
       @ ''message to '' @ email @ [CHR 0x0A]"
  by (simp add: serve_send_notification no_effects_def after_response_def write_log_def)

theorem send_notification_tasks_witness:
  "after_response (snd (serve \<lparr>to_int = (\<lambda>s. None), to_float = (\<lambda>s. None), is_http_url = (\<lambda>s. False)\<rparr>
     (\<lambda>S. []) ''0.01'' send_notification_route
     (empty_request\<lparr>path_params := [(''email'', ''a@b.c'')], query_params := [(''q'', ''x'')]\<rparr>)
     no_effects)) ''booted'' =
   ''booted'' @ ''found query: x'' @ [CHR 0x0A] @ ''message to a@b.c'' @ [CHR 0x0A]
   \<and> after_response (snd (serve \<lparr>to_int = (\<lambda>s. None), to_float = (\<lambda>s. None), is_http_url = (\<lambda>s. False)\<rparr>
     (\<lambda>S. []) ''0.01'' send_notification_route
     (empty_request\<lparr>path_params := [(''email'', ''a@b.c'')], query_params := [(''q'', [])]\<rparr>)
     no_effects)) ''booted'' =
   ''booted'' @ ''message to a@b.c'' @ [CHR 0x0A]"
  using send_notification_tasks
      [where c = "\<lparr>to_int = (\<lambda>s. None), to_float = (\<lambda>s. None), is_http_url = (\<lambda>s. False)\<rparr>"
         and ord = "\<lambda>S. []" and process_time = "''0.01''" and req = empty_request
         and email = "''a@b.c''" and q = "''x''" and log_txt = "''booted''", THEN conjunct2]
    send_notification_tasks
      [where c = "\<lparr>to_int = (\<lambda>s. None), to_float = (\<lambda>s. None), is_http_url = (\<lambda>s. False)\<rparr>"
         and ord = "\<lambda>S. []" and process_time = "''0.01''" and req = empty_request
         and email = "''a@b.c''" and q = "[]" and log_txt = "''booted''", THEN conjunct2]
  by simp

text \<open>
  C3, as the claim states it, fails: the request with \<open>email = a@b.c\<close> and \<open>q = x\<close>
  queues two tasks, not one.
\<close>

theorem send_notification_two_tasks:
  "queued (snd (serve \<lparr>to_int = (\<lambda>s. None), to_float = (\<lambda>s. None), is_http_url = (\<lambda>s. False)\<rparr>
     (\<lambda>S. []) ''0.01'' send_notification_route
     (empty_request\<lparr>path_params := [(''email'', ''a@b.c'')], query_params := [(''q'', ''x'')]\<rparr>)
     no_effects)) =
   [WriteLog (''found query: x'' @ [CHR 0x0A]), WriteLog (''message to a@b.c'' @ [CHR 0x0A])]
   \<and> length (queued (snd (serve \<lparr>to_int = (\<lambda>s. None), to_float = (\<lambda>s. None), is_http_url = (\<lambda>s. False)\<rparr>
     (\<lambda>S. []) ''0.01'' send_notification_route
     (empty_request\<lparr>path_params := [(''email'', ''a@b.c'')], query_params := [(''q'', ''x'')]\<rparr>)
     no_effects))) \<noteq> 1"
  by (simp add: serve_send_notification no_effects_def)

section \<open>Resolved responses\<close>











lemma validate_str:
  "validate c (Field n TStr None unconstrained) jo = Inr v \<Longrightarrow>
   \<exists>s. jo = Some (JStr s) \<and> v = VStr s"
  by (cases jo) (auto simp add: unconstrained_def length_check_def split: json.splits)

lemma validate_opt_str:
  "validate c (Field n (TOptional TStr) (Some VNone) unconstrained) jo = Inr v \<Longrightarrow>
   (v = VNone \<and> (jo = None \<or> jo = Some JNull)) \<or> (\<exists>s. jo = Some (JStr s) \<and> v = VStr s)"
  by (cases jo) (auto simp add: unconstrained_def length_check_def split: json.splits if_splits)

lemma UserIn_valid:
  assumes "validate_fields c UserIn kvs = Inr vs"
  shows "\<exists>u fnv pw.
      vs = [(''username'', VStr u), (''full_name'', fnv), (''password'', VStr pw)]
      \<and> map_of kvs ''username'' = Some (JStr u)
      \<and> map_of kvs ''password'' = Some (JStr pw)
      \<and> ((fnv = VNone \<and> (map_of kvs ''full_name'' = None \<or> map_of kvs ''full_name'' = Some JNull))
         \<or> (\<exists>f. map_of kvs ''full_name'' = Some (JStr f) \<and> fnv = VStr f))"
proof -
  from assms have "validate_fields c
      (Field ''username'' TStr None unconstrained #
       [Field ''full_name'' (TOptional TStr) (Some VNone) unconstrained,
        Field ''password'' TStr None unconstrained]) kvs = Inr vs"
    by (simp only: UserIn_fields)
  from validate_fields_Cons_Inr [OF this] obtain v1 r1 where
    a1: "validate c (Field ''username'' TStr None unconstrained) (map_of kvs ''username'') = Inr v1"
    and b1: "validate_fields c
        (Field ''full_name'' (TOptional TStr) (Some VNone) unconstrained #
         [Field ''password'' TStr None unconstrained]) kvs = Inr r1"
    and c1: "vs = (''username'', v1) # r1"
    by auto
  from validate_fields_Cons_Inr [OF b1] obtain v2 r2 where
    a2: "validate c (Field ''full_name'' (TOptional TStr) (Some VNone) unconstrained)
        (map_of kvs ''full_name'') = Inr v2"
    and b2: "validate_fields c (Field ''password'' TStr None unconstrained # []) kvs = Inr r2"
    and c2: "r1 = (''full_name'', v2) # r2"
    by auto
  from validate_fields_Cons_Inr [OF b2] obtain v3 where
    a3: "validate c (Field ''password'' TStr None unconstrained) (map_of kvs ''password'') = Inr v3"
    and c3: "r2 = [(''password'', v3)]"
    by auto
  from validate_str [OF a1] validate_str [OF a3] validate_opt_str [OF a2] c1 c2 c3
  show ?thesis
    by auto
qed

text \<open>
  C5. A request to \<open>POST /user/\<close> whose body binds as a \<open>UserIn\<close> (a \<open>username\<close>, an
  optional \<open>full_name\<close>, a \<open>password\<close>) is answered with status 200 and a body
  of exactly the two fields of \<open>BaseUser\<close>: the \<open>username\<close> and the \<open>full_name\<close> of
  the request (\<open>null\<close> when it gave none). The \<open>password\<close> is not in the response.
\<close>

theorem create_user_drops_password:
  assumes "bind c (params create_user_route) req = Inr inst"
  shows "\<exists>kvs u fnv pw.
      body req = Some (JObj kvs)
      \<and> map_of kvs ''username'' = Some (JStr u)
      \<and> map_of kvs ''password'' = Some (JStr pw)
      \<and> ((fnv = VNone \<and> (map_of kvs ''full_name'' = None \<or> map_of kvs ''full_name'' = Some JNull))
         \<or> (\<exists>f. map_of kvs ''full_name'' = Some (JStr f) \<and> fnv = VStr f))
      \<and> inst = [(''user'', VDict [(''username'', VStr u), (''full_name'', fnv), (''password'', VStr pw)])]
      \<and> serve c ord process_time create_user_route req fx =
          (\<lparr>status_code = 200, headers = [(''X-Process-Time'', process_time)],
            content = Json (JObj [(''username'', JStr u), (''full_name'', serialize ord fnv)])\<rparr>, fx)"
proof -
  from assms have b: "bind c [Param Body None False (Field ''user'' (TNested UserIn) None unconstrained)] req = Inr inst"
    by (simp add: create_user_route_def)
  from bind_body [OF b] obtain j v where
    j: "body req = Some j" and v: "coerce c ''user'' (TNested UserIn) j = Inr v"
    and i: "inst = [(''user'', v)]"
    by blast
  from v obtain kvs vs where k: "j = JObj kvs" and vs: "validate_fields c UserIn kvs = Inr vs"
    and vd: "v = VDict vs"
    by (auto split: json.splits sum.splits)
  from UserIn_valid [OF vs] obtain u fnv pw where
    s: "vs = [(''username'', VStr u), (''full_name'', fnv), (''password'', VStr pw)]"
    and m: "map_of kvs ''username'' = Some (JStr u)" "map_of kvs ''password'' = Some (JStr pw)"
      "(fnv = VNone \<and> (map_of kvs ''full_name'' = None \<or> map_of kvs ''full_name'' = Some JNull))
         \<or> (\<exists>f. map_of kvs ''full_name'' = Some (JStr f) \<and> fnv = VStr f)"
    by blast
  have sv: "serve c ord process_time create_user_route req fx =
          (\<lparr>status_code = 200, headers = [(''X-Process-Time'', process_time)],
            content = Json (JObj [(''username'', JStr u), (''full_name'', serialize ord fnv)])\<rparr>, fx)"
    using b
    by (simp add: serve_def dispatch_def create_user_route_def i vd s create_user_endpoint_def
        create_user_def respond_def project_value_def BaseUser_def
        add_process_time_header_def top_level_def)
  from j k m i vd s sv show ?thesis
    by blast
qed

theorem create_user_drops_password_witness:
  "serve \<lparr>to_int = (\<lambda>s. None), to_float = (\<lambda>s. None), is_http_url = (\<lambda>s. False)\<rparr>
     (\<lambda>S. []) ''0.01'' create_user_route
     (empty_request\<lparr>body := Some (JObj [(''username'', JStr ''morty''),
        (''full_name'', JStr ''Morty Smith''), (''password'', JStr ''secret'')])\<rparr>) no_effects =
     (\<lparr>status_code = 200, headers = [(''X-Process-Time'', ''0.01'')],
       content = Json (JObj [(''username'', JStr ''morty''),
         (''full_name'', JStr ''Morty Smith'')])\<rparr>, no_effects)"
  using create_user_drops_password
    [where c = "\<lparr>to_int = (\<lambda>s. None), to_float = (\<lambda>s. None), is_http_url = (\<lambda>s. False)\<rparr>"
       and req = "empty_request\<lparr>body := Some (JObj [(''username'', JStr ''morty''),
        (''full_name'', JStr ''Morty Smith''), (''password'', JStr ''secret'')])\<rparr>"
       and inst = "[(''user'', VDict [(''username'', VStr ''morty''),
         (''full_name'', VStr ''Morty Smith''), (''password'', VStr ''secret'')])]"
       and ord = "\<lambda>S. []" and process_time = "''0.01''" and fx = no_effects]
  by (simp add: create_user_route_def bind_def violations_of_def bound_of_def raw_value_def
      empty_request_def UserIn_fields both_def unconstrained_def length_check_def)

section \<open>The round trip of an offer\<close>

lemma serialize_JNull: "finite_val v \<Longrightarrow> (serialize ord v = JNull) = (v = VNone)"
  by (cases v) (auto split: pyfloat.splits)

lemma json_strs_map: "json_strs (map JStr ss) = Some ss"
  by (induction ss) simp_all

lemma map_of_serialize_items:
  "distinct (map fst vs) \<Longrightarrow> kv \<in> set vs \<Longrightarrow>
   map_of (serialize_items ord vs) (fst kv) = Some (serialize ord (snd kv))"
proof (induction vs)
  case Nil
  then show ?case by simp
next
  case (Cons a vs)
  then show ?case
    by (cases "kv = a") (auto simp add: rev_image_eqI)
qed

lemma revalidate_aux:
  "list_all2 (\<lambda>f kv. fst kv = fname f
       \<and> validate c f (Some (serialize ord (snd kv))) = Inr (snd kv)) fs vs \<Longrightarrow>
   \<forall>kv\<in>set vs. map_of kvs (fst kv) = Some (serialize ord (snd kv)) \<Longrightarrow>
   validate_fields c fs kvs = Inr vs"
proof (induction fs vs rule: list_all2_induct)
  case Nil
  show ?case by simp
next
  case (Cons f fs kv vs)
  then show ?case
    by (cases kv) (auto simp add: both_def)
qed

lemma revalidate:
  assumes "list_all2 (\<lambda>f kv. fst kv = fname f
       \<and> validate c f (Some (serialize ord (snd kv))) = Inr (snd kv)) fs vs"
    and "distinct (map fname fs)"
  shows "validate_fields c fs (serialize_items ord vs) = Inr vs"
proof -
  from assms(1) have "map fst vs = map fname fs"
    by (induction fs vs rule: list_all2_induct) simp_all
  with assms(2) have "distinct (map fst vs)"
    by simp
  then have "\<forall>kv\<in>set vs. map_of (serialize_items ord vs) (fst kv) = Some (serialize ord (snd kv))"
    using map_of_serialize_items by blast
  with assms(1) show ?thesis
    by (rule revalidate_aux)
qed

lemma roundtrip:
  assumes ord: "\<And>S. fset_of_list (ord S) = S"
  shows "roundtrip_type t \<Longrightarrow> coerce c n t j = Inr v \<Longrightarrow> finite_val v \<Longrightarrow>
      coerce c n' t (serialize ord v) = Inr v"
    and "roundtrip_type t \<Longrightarrow> coerce_seq c n t js = Inr vs \<Longrightarrow> finite_vals vs \<Longrightarrow>
      coerce_seq c n' t (serialize_seq ord vs) = Inr vs"
    and "roundtrip_field f \<Longrightarrow> validate c f jo = Inr v \<Longrightarrow> finite_val v \<Longrightarrow>
      validate c f (Some (serialize ord v)) = Inr v"
    and "roundtrip_fields fs \<Longrightarrow> validate_fields c fs kvs = Inr ws \<Longrightarrow> finite_items ws \<Longrightarrow>
      list_all2 (\<lambda>f kv. fst kv = fname f
        \<and> validate c f (Some (serialize ord (snd kv))) = Inr (snd kv)) fs ws"
proof (induction c n t j and c n t js and c f jo and c fs kvs
    arbitrary: v n' and vs n' and v and ws
    rule: coerce_coerce_seq_validate_validate_fields.induct)
  case (1 c n j)
  then show ?case
    by (auto split: json.splits option.splits if_splits pyfloat.splits)
next
  case (2 c n j)
  then show ?case
    by (auto split: json.splits option.splits if_splits pyfloat.splits)
next
  case (3 c n j)
  then show ?case
    by (auto split: json.splits)
next
  case (4 c n j)
  then show ?case
    by (auto split: json.splits if_splits)
next
  case (5 c n t j)
  show ?case
  proof (cases "j = JNull")
    case True
    with 5 show ?thesis by simp
  next
    case False
    with 5 have "coerce c n' t (serialize ord v) = Inr v"
      by simp
    with "5.prems"(3) show ?thesis
      by (simp add: serialize_JNull)
  qed
next
  case (6 c n t j)
  then show ?case
    by (auto split: json.splits sum.splits)
next
  case (7 c n j)
  then show ?case
    by (auto simp add: json_strs_map ord split: json.splits option.splits)
next
  case (8 c n fs j)
  from "8.prems" obtain kvs ws where j: "j = JObj kvs"
    and w: "validate_fields c fs kvs = Inr ws" and v: "v = VDict ws"
    by (auto split: json.splits sum.splits)
  from "8.prems" have r: "roundtrip_fields fs" and d: "distinct (map fname fs)"
    by simp_all
  from "8.prems"(3) v have fi: "finite_items ws"
    by simp
  from "8.IH" [OF j r w fi] have "validate_fields c fs (serialize_items ord ws) = Inr ws"
    using d by (rule revalidate)
  then show ?case
    by (simp add: v)
next
  case (9 c n t)
  then show ?case by simp
next
  case (10 c n t j js)
  from "10.prems"(2) obtain w ws where a: "coerce c n t j = Inr w"
    and b: "coerce_seq c n t js = Inr ws" and c: "vs = w # ws"
    by (auto dest!: both_Inr)
  from "10.prems"(3) c have fw: "finite_val w" and fws: "finite_vals ws"
    by simp_all
  from "10.IH"(1) [OF "10.prems"(1) a fw] "10.IH"(2) [OF "10.prems"(1) b fws]
  show ?case
    by (simp add: c both_def)
next
  case (11 c n t d cs)
  then show ?case
    by (cases t) (auto split: option.splits)
next
  case (12 c n t d cs j)
  from "12.prems" have r: "roundtrip_type t"
    by simp
  from "12.prems" have a: "coerce c n t j = Inr v" and k: "check cs v = []"
    by (auto split: sum.splits list.splits)
  from "12.IH" [OF r a "12.prems"(3)] k show ?case
    by simp
next
  case (13 c kvs)
  then show ?case by simp
next
  case (14 c f fs kvs)
  from "14.prems"(2) obtain w ws' where a: "validate c f (map_of kvs (fname f)) = Inr w"
    and b: "validate_fields c fs kvs = Inr ws'" and c: "ws = (fname f, w) # ws'"
    by (auto dest!: both_Inr)
  from "14.prems"(1) have rf: "roundtrip_field f" and rs: "roundtrip_fields fs"
    by simp_all
  from "14.prems"(3) c have fw: "finite_val w" and fws: "finite_items ws'"
    by simp_all
  from "14.IH"(1) [OF rf a fw] "14.IH"(2) [OF rs b fws]
  show ?case
    by (simp add: c)
qed

lemma roundtrip_Offer: "roundtrip_type (TNested Offer)"
  by (simp add: Offer_def Item_fields Image_def)

lemma project_aux:
  "map fst vs = map fname fs \<Longrightarrow> \<forall>kv\<in>set vs. map_of kvs (fst kv) = Some (snd kv) \<Longrightarrow>
   project fs kvs = Some vs"
proof (induction fs arbitrary: vs)
  case Nil
  then show ?case by simp
next
  case (Cons f fs)
  then obtain kv ws where "vs = kv # ws"
    by (cases vs) auto
  with Cons show ?case
    by (cases kv) auto
qed

lemma project_same:
  assumes "map fst vs = map fname fs" and "distinct (map fname fs)"
  shows "project fs vs = Some vs"
proof -
  from assms have "distinct (map fst vs)"
    by simp
  then have "\<forall>kv\<in>set vs. map_of vs (fst kv) = Some (snd kv)"
    by simp
  with assms(1) show ?thesis
    by (rule project_aux)
qed

text \<open>
  C7, as the code has it. An \<open>Offer\<close> instance that the binder produces from a
  request to \<open>POST /offers/\<close> and whose floats (its price, and the price and tax of
  its items) are all finite, serialized by the resolver against \<open>Offer\<close> and parsed
  again by the binder against \<open>Offer\<close>, is the same instance; and the response of
  \<open>POST /offers/\<close>, which echoes its body, is that serialized form. The parameter
  \<open>ord\<close> is any enumeration of sets.
\<close>

theorem offer_round_trip:
  assumes ord: "\<And>S. fset_of_list (ord S) = S"
    and b: "bind c create_offer_params req = Inr [(''offer'', offer)]"
    and f: "finite_val offer"
  shows "\<exists>j. resolve ord (Single Offer) (create_offer offer) = Inr j
     \<and> bind c create_offer_params (rq\<lparr>body := Some j\<rparr>) = Inr [(''offer'', offer)]
     \<and> serve c ord process_time create_offer_route req fx =
         (\<lparr>status_code = 200, headers = [(''X-Process-Time'', process_time)],
           content = Json j\<rparr>, fx)"
proof -
  from b have b': "bind c [Param Body None False (Field ''offer'' (TNested Offer) None unconstrained)] req =
      Inr [(''offer'', offer)]"
    by (simp add: create_offer_params_def)
  from bind_body [OF b'] obtain j0 where
    j0: "body req = Some j0" and co: "coerce c ''offer'' (TNested Offer) j0 = Inr offer"
    by auto
  from co obtain kvs ws where ws: "validate_fields c Offer kvs = Inr ws" and o: "offer = VDict ws"
    by (auto split: json.splits sum.splits)
  have d: "distinct (map fname Offer)"
    by (simp add: Offer_def)
  have p: "project Offer ws = Some ws"
    using validate_fields_names [OF ws] d by (rule project_same)
  have r: "resolve ord (Single Offer) (create_offer offer) = Inr (serialize ord offer)"
    by (simp add: create_offer_def project_value_def o p)
  have again: "coerce c ''offer'' (TNested Offer) (serialize ord offer) = Inr offer"
    using roundtrip(1) [OF ord roundtrip_Offer co f] .
  have rb: "bind c create_offer_params (rq\<lparr>body := Some (serialize ord offer)\<rparr>) =
      Inr [(''offer'', offer)]"
    unfolding create_offer_params_def
    by (rule bind_body_Inr [OF _ again]) simp
  have sv: "serve c ord process_time create_offer_route req fx =
         (\<lparr>status_code = 200, headers = [(''X-Process-Time'', process_time)],
           content = Json (serialize ord offer)\<rparr>, fx)"
    using b r
    by (simp add: serve_def dispatch_def create_offer_route_def create_offer_endpoint_def
        respond_def add_process_time_header_def top_level_def del: resolve.simps)
  from r rb sv show ?thesis
    by blast
qed

theorem offer_round_trip_witness:
  "bind \<lparr>to_int = (\<lambda>s. None), to_float = (\<lambda>s. None),
         is_http_url = (\<lambda>s. s = ''http://example.com/gun.png'')\<rparr>
     create_offer_params
     (empty_request\<lparr>body := Some (JObj
        [(''name'', JStr ''Bundle''), (''price'', JNum (Finite 74)),
         (''items'', JArr [JObj
            [(''name'', JStr ''Portal Gun''), (''price'', JNum (Finite 42)),
             (''tags'', JArr [JStr ''red'']),
             (''images'', JArr [JObj [(''url'', JStr ''http://example.com/gun.png''),
                                      (''name'', JStr ''front'')]])]])])\<rparr>) =
   Inr [(''offer'', VDict
     [(''name'', VStr ''Bundle''), (''description'', VNone), (''price'', VFloat (Finite 74)),
      (''items'', VSeq [VDict
         [(''description'', VNone), (''type'', VNone), (''name'', VStr ''Portal Gun''),
          (''price'', VFloat (Finite 42)), (''tax'', VNone), (''tags'', VStrSet {|''red''|}),
          (''images'', VSeq [VDict [(''url'', VStr ''http://example.com/gun.png''),
                                    (''name'', VStr ''front'')]])]])])]
   \<and> (\<exists>j. resolve sorted_list_of_fset (Single Offer) (VDict
     [(''name'', VStr ''Bundle''), (''description'', VNone), (''price'', VFloat (Finite 74)),
      (''items'', VSeq [VDict
         [(''description'', VNone), (''type'', VNone), (''name'', VStr ''Portal Gun''),
          (''price'', VFloat (Finite 42)), (''tax'', VNone), (''tags'', VStrSet {|''red''|}),
          (''images'', VSeq [VDict [(''url'', VStr ''http://example.com/gun.png''),
                                    (''name'', VStr ''front'')]])]])]) = Inr j
      \<and> bind \<lparr>to_int = (\<lambda>s. None), to_float = (\<lambda>s. None),
         is_http_url = (\<lambda>s. s = ''http://example.com/gun.png'')\<rparr>
         create_offer_params (empty_request\<lparr>body := Some j\<rparr>) =
       Inr [(''offer'', VDict
     [(''name'', VStr ''Bundle''), (''description'', VNone), (''price'', VFloat (Finite 74)),
      (''items'', VSeq [VDict
         [(''description'', VNone), (''type'', VNone), (''name'', VStr ''Portal Gun''),
          (''price'', VFloat (Finite 42)), (''tax'', VNone), (''tags'', VStrSet {|''red''|}),
          (''images'', VSeq [VDict [(''url'', VStr ''http://example.com/gun.png''),
                                    (''name'', VStr ''front'')]])]])])])"
proof -
  let ?c = "\<lparr>to_int = (\<lambda>s. None), to_float = (\<lambda>s. None),
         is_http_url = (\<lambda>s. s = ''http://example.com/gun.png'')\<rparr>"
  let ?req = "empty_request\<lparr>body := Some (JObj
        [(''name'', JStr ''Bundle''), (''price'', JNum (Finite 74)),
         (''items'', JArr [JObj
            [(''name'', JStr ''Portal Gun''), (''price'', JNum (Finite 42)),
             (''tags'', JArr [JStr ''red'']),
             (''images'', JArr [JObj [(''url'', JStr ''http://example.com/gun.png''),
                                      (''name'', JStr ''front'')]])]])])\<rparr>"
  let ?o = "VDict
     [(''name'', VStr ''Bundle''), (''description'', VNone), (''price'', VFloat (Finite 74)),
      (''items'', VSeq [VDict
         [(''description'', VNone), (''type'', VNone), (''name'', VStr ''Portal Gun''),
          (''price'', VFloat (Finite 42)), (''tax'', VNone), (''tags'', VStrSet {|''red''|}),
          (''images'', VSeq [VDict [(''url'', VStr ''http://example.com/gun.png''),
                                    (''name'', VStr ''front'')]])]])]"
  have h: "\<And>S::string fset. fset_of_list (sorted_list_of_fset S) = S"
    by simp
  have b: "bind ?c create_offer_params ?req = Inr [(''offer'', ?o)]"
    by (simp add: create_offer_params_def bind_def violations_of_def bound_of_def raw_value_def
        empty_request_def Offer_def Item_fields Image_def both_def unconstrained_def
        length_check_def range_check_def)
  have f: "finite_val ?o"
    by simp
  from offer_round_trip [of sorted_list_of_fset ?c ?req ?o empty_request, OF h b f]
  have "\<exists>j. resolve sorted_list_of_fset (Single Offer) ?o = Inr j
      \<and> bind ?c create_offer_params (empty_request\<lparr>body := Some j\<rparr>) = Inr [(''offer'', ?o)]"
    by (auto simp add: create_offer_def simp del: resolve.simps)
  with b show ?thesis
    by blast
qed

text \<open>
  C7, as the claim states it, fails: a valid \<open>Offer\<close> can have a price that is not
  finite. The body with the price \<open>1e400\<close>, which the parser reads as \<open>inf\<close>, binds;
  the instance is serialized with the price \<open>null\<close>; and parsing that again is a
  violation, not the instance.
\<close>

theorem offer_infinite_price:
  "bind \<lparr>to_int = (\<lambda>s. None), to_float = (\<lambda>s. None), is_http_url = (\<lambda>s. False)\<rparr>
     create_offer_params
     (empty_request\<lparr>body := Some (JObj
        [(''name'', JStr ''Bundle''), (''price'', JNum PosInf), (''items'', JArr [])])\<rparr>) =
   Inr [(''offer'', VDict
     [(''name'', VStr ''Bundle''), (''description'', VNone), (''price'', VFloat PosInf),
      (''items'', VSeq [])])]
   \<and> resolve (\<lambda>S. []) (Single Offer) (create_offer (VDict
     [(''name'', VStr ''Bundle''), (''description'', VNone), (''price'', VFloat PosInf),
      (''items'', VSeq [])])) =
     Inr (JObj [(''name'', JStr ''Bundle''), (''description'', JNull), (''price'', JNull),
       (''items'', JArr [])])
   \<and> bind \<lparr>to_int = (\<lambda>s. None), to_float = (\<lambda>s. None), is_http_url = (\<lambda>s. False)\<rparr>
     create_offer_params
     (empty_request\<lparr>body := Some (JObj [(''name'', JStr ''Bundle''), (''description'', JNull),
        (''price'', JNull), (''items'', JArr [])])\<rparr>) =
   Inl [\<lparr>vloc = Body, vname = ''price'', vkind = TypeError, vinput = JNull\<rparr>]"
  by (simp add: create_offer_params_def bind_def violations_of_def bound_of_def raw_value_def
      empty_request_def Offer_def both_def unconstrained_def length_check_def range_check_def
      create_offer_def project_value_def locate_def)


end
